theory Spec2Isabelle
  imports Complex_Main "HOL-Library.Sublist" "HOL-Library.AList"
begin

section \<open>Python values\<close>

text \<open>
  The connector handles JSON documents decoded by \<^verbatim>\<open>response.json()\<close> and the
  dictionaries it builds from them. A value is one of the JSON shapes, or a
  \<^verbatim>\<open>datetime\<close> (an instant, in seconds). A \<^verbatim>\<open>dict\<close> with string keys is an
  association list in insertion order; \<open>map_of\<close> is the lookup. A \<open>string\<close> is read as
  a Python \<^verbatim>\<open>str\<close> whose code points are below 256. A Python \<^verbatim>\<open>float\<close> is the
  real number it denotes.
\<close>

type_synonym datetime = int

datatype pyval =
    PNone
  | PBool bool
  | PInt int
  | PFloat real
  | PStr string
  | PList "pyval list"
  | PDict "(string \<times> pyval) list"
  | PDatetime datetime

type_synonym pydict = "(string \<times> pyval) list"

text \<open>The exception classes the connector can meet. \<open>HTTPError\<close> is a subclass of
  \<open>RequestException\<close>; all of them are subclasses of \<^verbatim>\<open>Exception\<close>.\<close>

datatype exn =
    RequestException
  | HTTPError
  | ValueError
  | TypeError
  | AttributeError
  | KeyError
  | OverflowError
  | StoreError

fun is_RequestException :: "exn \<Rightarrow> bool" where
  "is_RequestException RequestException = True"
| "is_RequestException HTTPError = True"
| "is_RequestException _ = False"

text \<open>Truth value testing (\<^verbatim>\<open>bool(v)\<close>, \<^verbatim>\<open>if v\<close>, \<^verbatim>\<open>not v\<close>).\<close>

fun truthy :: "pyval \<Rightarrow> bool" where
  "truthy PNone = False"
| "truthy (PBool b) = b"
| "truthy (PInt i) = (i \<noteq> 0)"
| "truthy (PFloat x) = (x \<noteq> 0)"
| "truthy (PStr s) = (s \<noteq> [])"
| "truthy (PList xs) = (xs \<noteq> [])"
| "truthy (PDict d) = (d \<noteq> [])"
| "truthy (PDatetime t) = True"

fun is_dict :: "pyval \<Rightarrow> bool" where
  "is_dict (PDict d) = True"
| "is_dict _ = False"

text \<open>A \<^verbatim>\<open>float\<close> read from the configuration: a finite value (the real number it
  denotes), an infinity, or not a number.\<close>

datatype pyfloat = Finite real | PosInf | NegInf | NaN

subsection \<open>Strings\<close>

text \<open>\<^verbatim>\<open>str.lower\<close> on code points below 256: the ASCII capitals and the Latin-1
  capitals \<open>0xC0..0xDE\<close> other than the multiplication sign \<open>0xD7\<close> move up by 32.\<close>

definition lower_char :: "char \<Rightarrow> char" where
  "lower_char c =
     (let n = of_char c :: nat
      in if (65 \<le> n \<and> n \<le> 90) \<or> (192 \<le> n \<and> n \<le> 222 \<and> n \<noteq> 215)
         then char_of (n + 32) else c)"

definition lower :: "string \<Rightarrow> string" where
  "lower s = map lower_char s"

text \<open>\<^verbatim>\<open>str.isspace\<close> on code points below 256.\<close>

definition is_space :: "char \<Rightarrow> bool" where
  "is_space c =
     (let n = of_char c :: nat
      in (9 \<le> n \<and> n \<le> 13) \<or> (28 \<le> n \<and> n \<le> 32) \<or> n = 133 \<or> n = 160)"

definition strip :: "string \<Rightarrow> string" where
  "strip s = rev (dropWhile is_space (rev (dropWhile is_space s)))"

text \<open>\<^verbatim>\<open>sub in s\<close> on strings is \<open>sublist sub s\<close>: \<open>s\<close> is \<open>ps @ sub @ ss\<close> for
  some \<open>ps\<close>, \<open>ss\<close>.\<close>

section \<open>The transformer\<close>

text \<open>\<^verbatim>\<open>_calculate_completeness\<close>: the share of the five expected fields that are in
  the dictionary with a truthy value; \<open>0.0\<close> for anything that is not a dictionary.\<close>

definition expected_fields :: "string list" where
  "expected_fields = [''MD5'', ''SHA1'', ''SHA256'', ''F_TYPE'', ''ADDED'']"

definition field_present :: "pydict \<Rightarrow> string \<Rightarrow> bool" where
  "field_present d field = (case map_of d field of None \<Rightarrow> False | Some v \<Rightarrow> truthy v)"

fun calculate_completeness :: "pyval \<Rightarrow> real" where
  "calculate_completeness (PDict d) =
     real (length (filter (field_present d) expected_fields)) / real (length expected_fields)"
| "calculate_completeness _ = 0"

text \<open>The table \<^verbatim>\<open>field_mapping\<close> of \<^verbatim>\<open>transform_data\<close>, in its source order.\<close>

definition field_mapping :: "(string \<times> string) list" where
  "field_mapping =
     [(''MD5'', ''md5''),
      (''SHA1'', ''sha1''),
      (''SHA256'', ''sha256_confirmed''),
      (''SSDEEP'', ''ssdeep''),
      (''F_TYPE'', ''file_type''),
      (''SOURCES'', ''sources''),
      (''ADDED'', ''date_added'')]"

text \<open>One turn of the loop over \<^verbatim>\<open>field_mapping.items()\<close>.\<close>

definition copy_field :: "pydict \<Rightarrow> string \<times> string \<Rightarrow> pydict \<Rightarrow> pydict" where
  "copy_field raw entry transformed =
     (case map_of raw (fst entry) of
        None \<Rightarrow> transformed
      | Some v \<Rightarrow> AList.update (snd entry) v transformed)"

definition copy_fields :: "pydict \<Rightarrow> pydict \<Rightarrow> pydict" where
  "copy_fields raw transformed = fold (copy_field raw) field_mapping transformed"

text \<open>The date step. \<^verbatim>\<open>datetime.strptime\<close> is the library's: it is a parameter, \<open>None\<close>
  standing for its \<^verbatim>\<open>ValueError\<close> on text that does not match the format. Given
  anything but a \<^verbatim>\<open>str\<close> it raises \<^verbatim>\<open>TypeError\<close>, which the \<^verbatim>\<open>except ValueError\<close>
  of the source does not catch.\<close>

definition parse_date :: "(string \<Rightarrow> datetime option) \<Rightarrow> pydict \<Rightarrow> pydict \<Rightarrow> exn + pydict" where
  "parse_date strptime raw transformed =
     (case map_of raw ''ADDED'' of
        None \<Rightarrow> Inr transformed
      | Some (PStr s) \<Rightarrow>
          (case strptime s of
             Some t \<Rightarrow> Inr (AList.update ''date_added_parsed'' (PDatetime t) transformed)
           | None \<Rightarrow> Inr transformed)
      | Some _ \<Rightarrow> Inl TypeError)"

text \<open>The \<^verbatim>\<open>if/elif\<close> chain on the lower-cased file type.\<close>

definition sample_type_of :: "string \<Rightarrow> string" where
  "sample_type_of file_type =
     (if sublist ''pe32'' file_type \<or> sublist ''executable'' file_type then ''executable''
      else if sublist ''pdf'' file_type then ''document''
      else if sublist ''zip'' file_type \<or> sublist ''archive'' file_type then ''archive''
      else ''unknown'')"

text \<open>\<^verbatim>\<open>raw_data.get('F_TYPE', '').lower()\<close>: the default is used only when the key is
  absent; a value that is not a \<^verbatim>\<open>str\<close> has no \<^verbatim>\<open>lower\<close> and raises
  \<^verbatim>\<open>AttributeError\<close>.\<close>

definition classify :: "pydict \<Rightarrow> pydict \<Rightarrow> exn + pydict" where
  "classify raw transformed =
     (case map_of raw ''F_TYPE'' of
        None \<Rightarrow> Inr (AList.update ''sample_type'' (PStr (sample_type_of (lower ''''))) transformed)
      | Some (PStr s) \<Rightarrow>
          Inr (AList.update ''sample_type'' (PStr (sample_type_of (lower s))) transformed)
      | Some _ \<Rightarrow> Inl AttributeError)"

definition metadata :: "datetime \<Rightarrow> pyval \<Rightarrow> string \<Rightarrow> pydict" where
  "metadata now raw_data sample_hash =
     [(''sha256'', PStr sample_hash),
      (''ingestion_timestamp'', PDatetime now),
      (''source'', PStr ''malshare_api''),
      (''connector_version'', PStr ''1.0''),
      (''raw_response'', raw_data)]"

definition add_completeness :: "pyval \<Rightarrow> pydict \<Rightarrow> pydict" where
  "add_completeness raw_data transformed =
     AList.update ''data_completeness'' (PFloat (calculate_completeness raw_data)) transformed"

text \<open>\<^verbatim>\<open>transform_data\<close>. \<open>now\<close> is the value of \<^verbatim>\<open>datetime.now(timezone.utc)\<close>.\<close>

fun transform_data ::
  "(string \<Rightarrow> datetime option) \<Rightarrow> datetime \<Rightarrow> pyval \<Rightarrow> string \<Rightarrow> exn + pydict" where
  "transform_data strptime now (PDict raw) sample_hash =
     (case parse_date strptime raw (copy_fields raw (metadata now (PDict raw) sample_hash)) of
        Inl e \<Rightarrow> Inl e
      | Inr t1 \<Rightarrow>
          (case classify raw t1 of
             Inl e \<Rightarrow> Inl e
           | Inr t2 \<Rightarrow> Inr (add_completeness (PDict raw) t2)))"
| "transform_data strptime now raw_data sample_hash =
     Inr (add_completeness raw_data (metadata now raw_data sample_hash))"

section \<open>The HTTP request executor\<close>

text \<open>A \<^verbatim>\<open>requests.Response\<close> as the executor reads it: the status code, the
  \<^verbatim>\<open>content-type\<close> header (if any), the outcome of \<^verbatim>\<open>json()\<close>, and the body text.\<close>

record response =
  status_code :: int
  content_type :: "string option"
  json_body :: "exn + pyval"
  body_text :: string

text \<open>\<^verbatim>\<open>Response.raise_for_status()\<close> raises \<^verbatim>\<open>HTTPError\<close> for a status from 400 to
  599 (a client or a server error) and for no other: a status below 400, a 3xx among
  them, passes.\<close>

definition raise_for_status :: "response \<Rightarrow> exn option" where
  "raise_for_status r =
     (if 400 \<le> status_code r \<and> status_code r < 600 then Some HTTPError else None)"

record config =
  api_key :: string
  rate_limit_delay :: pyfloat
  max_retries :: int

text \<open>What lies outside the connector: the \<open>n\<close>-th call of \<^verbatim>\<open>requests.get\<close> with its
  query parameters, the \<open>n\<close>-th call of \<^verbatim>\<open>collection.replace_one\<close> with its filter
  and document, \<^verbatim>\<open>datetime.strptime\<close> for the fixed format, the clock read at the
  \<open>n\<close>-th transform, and the least and the greatest duration, in seconds, that the
  platform's \<^verbatim>\<open>time.sleep\<close> can convert to its 64-bit count of nanoseconds.\<close>

record update_result =
  upserted_id :: pyval
  modified_count :: int

record world =
  requests_get :: "nat \<Rightarrow> (string \<times> string) list \<Rightarrow> exn + response"
  replace_one :: "nat \<Rightarrow> pydict \<Rightarrow> pydict \<Rightarrow> exn + update_result"
  strptime :: "string \<Rightarrow> datetime option"
  utcnow :: "nat \<Rightarrow> datetime"
  sleep_min :: real
  sleep_max :: real

text \<open>What a run leaves behind: the number of \<^verbatim>\<open>requests.get\<close> calls made, the
  durations passed to \<^verbatim>\<open>time.sleep\<close> in order, and the number of store writes
  attempted.\<close>

record run_state =
  calls :: nat
  sleeps :: "real list"
  writes :: nat

text \<open>\<^verbatim>\<open>time.sleep(secs)\<close> converts the duration first: not a number is a
  \<^verbatim>\<open>ValueError\<close>, an infinity or a finite value outside the platform's range an
  \<^verbatim>\<open>OverflowError\<close>. It then refuses a negative duration with \<^verbatim>\<open>ValueError\<close>. \<open>None\<close>
  is a sleep that took place; a duration that is accepted is finite, and \<open>sleep\<close> appends
  it to the log of the run.\<close>

definition time_sleep :: "world \<Rightarrow> pyfloat \<Rightarrow> exn option" where
  "time_sleep w secs =
     (case secs of
        NaN \<Rightarrow> Some ValueError
      | PosInf \<Rightarrow> Some OverflowError
      | NegInf \<Rightarrow> Some OverflowError
      | Finite x \<Rightarrow>
          (if x < sleep_min w \<or> sleep_max w < x then Some OverflowError
           else if x < 0 then Some ValueError
           else None))"

definition sleep :: "world \<Rightarrow> pyfloat \<Rightarrow> run_state \<Rightarrow> exn + run_state" where
  "sleep w secs st =
     (case time_sleep w secs of
        Some e \<Rightarrow> Inl e
      | None \<Rightarrow>
          (case secs of
             Finite x \<Rightarrow> Inr (st\<lparr>sleeps := sleeps st @ [x]\<rparr>)
           | _ \<Rightarrow> Inr st))"

text \<open>The product of a \<^verbatim>\<open>float\<close> and \<^verbatim>\<open>float(2 ** k)\<close> for \<open>k < 1024\<close>: scaling by a
  power of two is exact, and a product of magnitude \<open>2 ^ 1024\<close> or more is an infinity.\<close>

definition times_pow2 :: "pyfloat \<Rightarrow> nat \<Rightarrow> pyfloat" where
  "times_pow2 f k =
     (case f of
        Finite x \<Rightarrow>
          (if 2 ^ 1024 \<le> \<bar>x * 2 ^ k\<bar> then (if 0 < x then PosInf else NegInf)
           else Finite (x * 2 ^ k))
      | PosInf \<Rightarrow> PosInf
      | NegInf \<Rightarrow> NegInf
      | NaN \<Rightarrow> NaN)"

text \<open>\<^verbatim>\<open>self.rate_limit_delay * (2 ** attempt)\<close>: the integer \<^verbatim>\<open>2 ** attempt\<close> is converted
  to a \<^verbatim>\<open>float\<close>, which raises \<^verbatim>\<open>OverflowError\<close> from \<open>2 ** 1024\<close> on, whatever the
  delay.\<close>

definition wait_time :: "config \<Rightarrow> nat \<Rightarrow> exn + pyfloat" where
  "wait_time cfg attempt =
     (if 1024 \<le> attempt then Inl OverflowError
      else Inr (times_pow2 (rate_limit_delay cfg) attempt))"

text \<open>\<^verbatim>\<open>time.sleep(self.rate_limit_delay * (2 ** attempt))\<close>.\<close>

definition back_off :: "config \<Rightarrow> world \<Rightarrow> nat \<Rightarrow> run_state \<Rightarrow> exn + run_state" where
  "back_off cfg w attempt st =
     (case wait_time cfg attempt of
        Inl e \<Rightarrow> Inl e
      | Inr secs \<Rightarrow> sleep w secs st)"

text \<open>\<^verbatim>\<open>str.split('\n')\<close>.\<close>

fun split_nl :: "string \<Rightarrow> string list" where
  "split_nl [] = [[]]"
| "split_nl (c # cs) =
     (if c = CHR 0x0A then [] # split_nl cs
      else (case split_nl cs of [] \<Rightarrow> [[c]] | l # ls \<Rightarrow> (c # l) # ls))"

text \<open>Lines 131 to 135: a JSON body is decoded, any other body becomes its stripped
  text split into lines under the key \<^verbatim>\<open>data\<close>.\<close>

definition decode_response :: "response \<Rightarrow> exn + pyval" where
  "decode_response r =
     (if prefix ''application/json'' (case content_type r of None \<Rightarrow> [] | Some c \<Rightarrow> c)
      then json_body r
      else Inr (PDict [(''data'', PList (map PStr (split_nl (strip (body_text r)))))]))"

definition query_params :: "config \<Rightarrow> string \<Rightarrow> (string \<times> string) list \<Rightarrow> (string \<times> string) list" where
  "query_params cfg endpoint params =
     fold (\<lambda>kv. AList.update (fst kv) (snd kv)) params
       [(''api_key'', api_key cfg), (''action'', endpoint)]"

text \<open>The \<^verbatim>\<open>except RequestException\<close> block of attempt \<open>attempt\<close>: \<open>Inl\<close> leaves the
  function (with \<^verbatim>\<open>None\<close> on the last attempt, or with the exception raised by the
  product or by the sleep), \<open>Inr\<close> goes on to the next attempt.\<close>

definition on_request_exception ::
  "config \<Rightarrow> world \<Rightarrow> nat \<Rightarrow> run_state \<Rightarrow> ((exn + pyval) \<times> run_state) + run_state" where
  "on_request_exception cfg w attempt st =
     (if int attempt = max_retries cfg - 1 then Inl (Inr PNone, st)
      else (case back_off cfg w attempt st of
              Inl e \<Rightarrow> Inl (Inl e, st)
            | Inr st' \<Rightarrow> Inr st'))"

text \<open>The body of the \<^verbatim>\<open>try\<close> of one attempt, given what \<^verbatim>\<open>requests.get\<close> did:
  \<open>Inl\<close> leaves the function with a value or with an exception that is not caught,
  \<open>Inr\<close> goes on to the next attempt.\<close>

definition attempt_once ::
  "config \<Rightarrow> world \<Rightarrow> nat \<Rightarrow> exn + response \<Rightarrow> run_state \<Rightarrow> ((exn + pyval) \<times> run_state) + run_state" where
  "attempt_once cfg w attempt got st =
     (case got of
        Inl e \<Rightarrow>
          (if is_RequestException e then on_request_exception cfg w attempt st else Inl (Inl e, st))
      | Inr r \<Rightarrow>
          (if status_code r = 429
           then (case back_off cfg w attempt st of
                   Inl e \<Rightarrow> Inl (Inl e, st)
                 | Inr st' \<Rightarrow> Inr st')
           else (case raise_for_status r of
                   Some e \<Rightarrow>
                     (if is_RequestException e then on_request_exception cfg w attempt st
                      else Inl (Inl e, st))
                 | None \<Rightarrow>
                     (case decode_response r of
                        Inl e \<Rightarrow>
                          (if is_RequestException e then on_request_exception cfg w attempt st
                           else Inl (Inl e, st))
                      | Inr v \<Rightarrow> Inl (Inr v, st)))))"

text \<open>The loop \<^verbatim>\<open>for attempt in range(self.max_retries)\<close>, and the \<^verbatim>\<open>return None\<close>
  after it.\<close>

fun request_loop ::
  "config \<Rightarrow> world \<Rightarrow> (string \<times> string) list \<Rightarrow> nat list \<Rightarrow> run_state \<Rightarrow> (exn + pyval) \<times> run_state" where
  "request_loop cfg w q [] st = (Inr PNone, st)"
| "request_loop cfg w q (attempt # rest) st =
     (case attempt_once cfg w attempt (requests_get w (calls st) q) (st\<lparr>calls := Suc (calls st)\<rparr>) of
        Inl out \<Rightarrow> out
      | Inr st' \<Rightarrow> request_loop cfg w q rest st')"

definition make_api_request ::
  "config \<Rightarrow> world \<Rightarrow> string \<Rightarrow> (string \<times> string) list \<Rightarrow> run_state \<Rightarrow> (exn + pyval) \<times> run_state" where
  "make_api_request cfg w endpoint params st =
     request_loop cfg w (query_params cfg endpoint params) [0 ..< nat (max_retries cfg)] st"

section \<open>The extractor\<close>

text \<open>\<^verbatim>\<open>xs[:limit]\<close>: a negative \<open>limit\<close> counts from the end.\<close>

definition slice_to :: "int \<Rightarrow> 'a list \<Rightarrow> 'a list" where
  "slice_to limit xs =
     (if 0 \<le> limit then take (nat limit) xs else take (length xs - nat (- limit)) xs)"

text \<open>\<^verbatim>\<open>'data' in response\<close> and \<^verbatim>\<open>response['data']\<close>, by the type of the response.\<close>

fun contains_data :: "pyval \<Rightarrow> exn + bool" where
  "contains_data (PDict d) = Inr (map_of d ''data'' \<noteq> None)"
| "contains_data (PList xs) = Inr (PStr ''data'' \<in> set xs)"
| "contains_data (PStr s) = Inr (sublist ''data'' s)"
| "contains_data _ = Inl TypeError"

fun subscript_data :: "pyval \<Rightarrow> exn + pyval" where
  "subscript_data (PDict d) = (case map_of d ''data'' of None \<Rightarrow> Inl KeyError | Some v \<Rightarrow> Inr v)"
| "subscript_data _ = Inl TypeError"

text \<open>What \<^verbatim>\<open>for s in samples\<close> iterates over.\<close>

fun iterate :: "pyval \<Rightarrow> exn + pyval list" where
  "iterate (PList xs) = Inr xs"
| "iterate (PStr s) = Inr (map (\<lambda>c. PStr [c]) s)"
| "iterate (PDict d) = Inr (map (\<lambda>kv. PStr (fst kv)) d)"
| "iterate _ = Inl TypeError"

text \<open>\<^verbatim>\<open>[s.strip() for s in samples if s.strip()]\<close>: an element that is not a
  \<^verbatim>\<open>str\<close> has no \<^verbatim>\<open>strip\<close>.\<close>

fun stripped_nonempty :: "pyval list \<Rightarrow> exn + string list" where
  "stripped_nonempty [] = Inr []"
| "stripped_nonempty (PStr s # rest) =
     (case stripped_nonempty rest of
        Inl e \<Rightarrow> Inl e
      | Inr ts \<Rightarrow> Inr (if strip s \<noteq> [] then strip s # ts else ts))"
| "stripped_nonempty (v # rest) = Inl AttributeError"

text \<open>\<^verbatim>\<open>extract_sample_list\<close> after the request has returned \<open>resp\<close>.\<close>

definition samples_of_response :: "pyval \<Rightarrow> int \<Rightarrow> exn + string list" where
  "samples_of_response resp limit =
     (if \<not> truthy resp then Inr []
      else (case contains_data resp of
              Inl e \<Rightarrow> Inl e
            | Inr False \<Rightarrow> Inr []
            | Inr True \<Rightarrow>
                (case subscript_data resp of
                   Inl e \<Rightarrow> Inl e
                 | Inr samples \<Rightarrow>
                     (case iterate samples of
                        Inl e \<Rightarrow> Inl e
                      | Inr xs \<Rightarrow>
                          (case stripped_nonempty xs of
                             Inl e \<Rightarrow> Inl e
                           | Inr ts \<Rightarrow> Inr (slice_to limit ts))))))"

definition extract_sample_list ::
  "config \<Rightarrow> world \<Rightarrow> int \<Rightarrow> run_state \<Rightarrow> (exn + string list) \<times> run_state" where
  "extract_sample_list cfg w limit st =
     (case make_api_request cfg w ''getlist'' [] st of
        (Inl e, st') \<Rightarrow> (Inl e, st')
      | (Inr resp, st') \<Rightarrow> (samples_of_response resp limit, st'))"

definition extract_sample_details ::
  "config \<Rightarrow> world \<Rightarrow> string \<Rightarrow> run_state \<Rightarrow> (exn + pyval) \<times> run_state" where
  "extract_sample_details cfg w sample_hash st =
     (case make_api_request cfg w ''details'' [(''hash'', sample_hash)] st of
        (Inl e, st') \<Rightarrow> (Inl e, st')
      | (Inr resp, st') \<Rightarrow> (Inr (if \<not> truthy resp then PNone else resp), st'))"

section \<open>The loader\<close>

text \<open>\<^verbatim>\<open>load_data\<close>. The filter is built inside the \<^verbatim>\<open>try\<close>, so a document without
  the key \<^verbatim>\<open>sha256\<close> raises \<^verbatim>\<open>KeyError\<close> there; the handler formats the same key
  into its log line and raises \<^verbatim>\<open>KeyError\<close> again, which leaves the function. An
  exception of \<^verbatim>\<open>replace_one\<close> is caught and gives \<^verbatim>\<open>False\<close>. Both branches of the
  test on the result return \<^verbatim>\<open>True\<close>.\<close>

definition load_data :: "world \<Rightarrow> pydict \<Rightarrow> run_state \<Rightarrow> (exn + bool) \<times> run_state" where
  "load_data w transformed_data st =
     (case map_of transformed_data ''sha256'' of
        None \<Rightarrow> (Inl KeyError, st)
      | Some key \<Rightarrow>
          (case replace_one w (writes st) [(''sha256'', key)] transformed_data of
             Inl e \<Rightarrow> (Inr False, st\<lparr>writes := Suc (writes st)\<rparr>)
           | Inr result \<Rightarrow>
               (if truthy (upserted_id result) \<or> modified_count result > 0
                then (Inr True, st\<lparr>writes := Suc (writes st)\<rparr>)
                else (Inr True, st\<lparr>writes := Suc (writes st)\<rparr>))))"

section \<open>The pipeline\<close>

text \<open>The counters of the summary.\<close>

record summary =
  total :: nat
  successful_loads :: nat
  failed_loads :: nat

text \<open>One turn of \<^verbatim>\<open>for i, sample_hash in enumerate(sample_hashes, 1)\<close>; \<open>n\<close> is
  \<^verbatim>\<open>len(sample_hashes)\<close>. A sample without details is counted as failed and the
  \<^verbatim>\<open>continue\<close> skips the delay.\<close>

definition process_sample ::
  "config \<Rightarrow> world \<Rightarrow> nat \<Rightarrow> nat \<Rightarrow> string \<Rightarrow> summary \<times> run_state \<Rightarrow> exn + summary \<times> run_state" where
  "process_sample cfg w n i sample_hash acc =
     (case extract_sample_details cfg w sample_hash (snd acc) of
        (Inl e, st1) \<Rightarrow> Inl e
      | (Inr raw_data, st1) \<Rightarrow>
          (if \<not> truthy raw_data
           then Inr ((fst acc)\<lparr>failed_loads := Suc (failed_loads (fst acc))\<rparr>, st1)
           else (case transform_data (strptime w) (utcnow w i) raw_data sample_hash of
                   Inl e \<Rightarrow> Inl e
                 | Inr transformed_data \<Rightarrow>
                     (case load_data w transformed_data st1 of
                        (Inl e, st2) \<Rightarrow> Inl e
                      | (Inr ok, st2) \<Rightarrow>
                          (let counts =
                             (if ok
                              then (fst acc)\<lparr>successful_loads := Suc (successful_loads (fst acc))\<rparr>
                              else (fst acc)\<lparr>failed_loads := Suc (failed_loads (fst acc))\<rparr>)
                           in if i < n
                              then (case sleep w (rate_limit_delay cfg) st2 of
                                      Inl e \<Rightarrow> Inl e
                                    | Inr st3 \<Rightarrow> Inr (counts, st3))
                              else Inr (counts, st2))))))"

fun process_samples ::
  "config \<Rightarrow> world \<Rightarrow> nat \<Rightarrow> nat \<Rightarrow> string list \<Rightarrow> summary \<times> run_state \<Rightarrow> exn + summary \<times> run_state" where
  "process_samples cfg w n i [] acc = Inr acc"
| "process_samples cfg w n i (sample_hash # rest) acc =
     (case process_sample cfg w n i sample_hash acc of
        Inl e \<Rightarrow> Inl e
      | Inr acc' \<Rightarrow> process_samples cfg w n (Suc i) rest acc')"

text \<open>\<^verbatim>\<open>run_etl_pipeline(self, sample_limit: int = 50)\<close>: \<open>None\<close> is a call without the
  argument. The result is the exception re-raised by the \<^verbatim>\<open>except\<close> block, \<open>None\<close>
  for a run aborted on an empty list, or the summary.\<close>

definition run_etl_pipeline ::
  "config \<Rightarrow> world \<Rightarrow> int option \<Rightarrow> run_state \<Rightarrow> exn + summary option \<times> run_state" where
  "run_etl_pipeline cfg w sample_limit st =
     (case extract_sample_list cfg w (case sample_limit of None \<Rightarrow> 50 | Some n \<Rightarrow> n) st of
        (Inl e, st1) \<Rightarrow> Inl e
      | (Inr sample_hashes, st1) \<Rightarrow>
          (if sample_hashes = [] then Inr (None, st1)
           else (case process_samples cfg w (length sample_hashes) 1 sample_hashes
                        (\<lparr>total = length sample_hashes, successful_loads = 0, failed_loads = 0\<rparr>, st1) of
                   Inl e \<Rightarrow> Inl e
                 | Inr (counts, st2) \<Rightarrow> Inr (Some counts, st2))))"

subsection \<open>The entry point\<close>

text \<open>\<^verbatim>\<open>int(s)\<close> on a string of code points below 256: surrounding white space, an
  optional sign, then decimal digits with single underscores between them, at most 4300
  digits (the default of \<^verbatim>\<open>sys.get_int_max_str_digits()\<close>). The white space of \<^verbatim>\<open>int\<close>
  is narrower than that of \<^verbatim>\<open>str.strip\<close>: the separators \<open>0x1C..0x1F\<close> are not
  skipped.\<close>

definition is_int_space :: "char \<Rightarrow> bool" where
  "is_int_space c =
     (let n = of_char c :: nat
      in (9 \<le> n \<and> n \<le> 13) \<or> n = 32 \<or> n = 133 \<or> n = 160)"

definition int_strip :: "string \<Rightarrow> string" where
  "int_strip s = rev (dropWhile is_int_space (rev (dropWhile is_int_space s)))"

definition is_digit :: "char \<Rightarrow> bool" where
  "is_digit c = (48 \<le> (of_char c :: nat) \<and> (of_char c :: nat) \<le> 57)"

fun digits_value :: "nat \<Rightarrow> string \<Rightarrow> nat option" where
  "digits_value acc [] = Some acc"
| "digits_value acc (c # cs) =
     (if is_digit c then digits_value (10 * acc + (of_char c - 48)) cs
      else if c = CHR ''_'' \<and> cs \<noteq> [] \<and> is_digit (hd cs) then digits_value acc cs
      else None)"

definition unsigned_value :: "string \<Rightarrow> nat option" where
  "unsigned_value s =
     (if s \<noteq> [] \<and> is_digit (hd s) \<and> length (filter is_digit s) \<le> 4300
      then digits_value 0 s else None)"

definition py_int :: "string \<Rightarrow> exn + int" where
  "py_int s =
     (case int_strip s of
        [] \<Rightarrow> Inl ValueError
      | c # cs \<Rightarrow>
          (if c = CHR ''-'' then (case unsigned_value cs of None \<Rightarrow> Inl ValueError | Some n \<Rightarrow> Inr (- int n))
           else if c = CHR ''+'' then (case unsigned_value cs of None \<Rightarrow> Inl ValueError | Some n \<Rightarrow> Inr (int n))
           else (case unsigned_value (c # cs) of None \<Rightarrow> Inl ValueError | Some n \<Rightarrow> Inr (int n))))"

text \<open>\<^verbatim>\<open>os.getenv(name, default)\<close> on the process environment.\<close>

definition getenv :: "(string \<rightharpoonup> string) \<Rightarrow> string \<Rightarrow> string \<Rightarrow> string" where
  "getenv environ name dflt = (case environ name of None \<Rightarrow> dflt | Some v \<Rightarrow> v)"

text \<open>Lines 394 and 395 of \<^verbatim>\<open>main\<close>, for a connector already initialised: the limit
  is read from \<^verbatim>\<open>SAMPLE_LIMIT\<close> with the default \<^verbatim>\<open>'25'\<close> and passed on.\<close>

definition main_sample_limit :: "(string \<rightharpoonup> string) \<Rightarrow> exn + int" where
  "main_sample_limit environ = py_int (getenv environ ''SAMPLE_LIMIT'' ''25'')"

definition main_run ::
  "(string \<rightharpoonup> string) \<Rightarrow> config \<Rightarrow> world \<Rightarrow> run_state \<Rightarrow> exn + summary option \<times> run_state" where
  "main_run environ cfg w st =
     (case main_sample_limit environ of
        Inl e \<Rightarrow> Inl e
      | Inr sample_limit \<Rightarrow> run_etl_pipeline cfg w (Some sample_limit) st)"

section \<open>Predicates of the statements\<close>

text \<open>The value under a key is a \<^verbatim>\<open>str\<close>, or the key is absent.\<close>

definition str_or_absent :: "pydict \<Rightarrow> string \<Rightarrow> bool" where
  "str_or_absent d k = (case map_of d k of None \<Rightarrow> True | Some (PStr s) \<Rightarrow> True | Some _ \<Rightarrow> False)"

text \<open>The file-type string of a raw record, empty when the key is absent.\<close>

definition file_type_of :: "pydict \<Rightarrow> string" where
  "file_type_of d = (case map_of d ''F_TYPE'' of Some (PStr s) \<Rightarrow> s | _ \<Rightarrow> [])"




text \<open>The wait of attempt \<open>attempt\<close> can be computed and \<^verbatim>\<open>time.sleep\<close> accepts it.\<close>

definition wait_accepted :: "config \<Rightarrow> world \<Rightarrow> nat \<Rightarrow> bool" where
  "wait_accepted cfg w attempt =
     (case wait_time cfg attempt of
        Inl e \<Rightarrow> False
      | Inr secs \<Rightarrow> time_sleep w secs = None)"

text \<open>A string with no white space at either end.\<close>

definition trimmed :: "string \<Rightarrow> bool" where
  "trimmed s = (if s = [] then True else \<not> is_space (hd s) \<and> \<not> is_space (last s))"

subsection \<open>Sample configurations and worlds\<close>

text \<open>The configuration and the sample record of the test suite, and worlds that answer
  the \<open>n\<close>-th request from a fixed script.\<close>

definition test_config :: config where
  "test_config =
     \<lparr>api_key = ''test_api_key_123'', rate_limit_delay = Finite 0.1, max_retries = 2\<rparr>"



definition start :: run_state where
  "start = \<lparr>calls = 0, sleeps = [], writes = 0\<rparr>"

definition sample_api_response :: pyval where
  "sample_api_response =
     PDict [(''MD5'', PStr ''d41d8cd98f00b204e9800998ecf8427e''),
            (''SHA1'', PStr ''da39a3ee5e6b4b0d3255bfef95601890afd80709''),
            (''SHA256'', PStr ''e3b0c44298fc1c149afbf4c8996fb92427ae41e4649b934ca495991b7852b855''),
            (''SSDEEP'', PStr ''3::''),
            (''F_TYPE'', PStr ''PE32 executable''),
            (''SOURCES'', PList [PStr ''virustotal'']),
            (''ADDED'', PStr ''2024-01-15 10:30:00'')]"

definition server_error :: response where
  "server_error =
     \<lparr>status_code = 500, content_type = Some ''text/html'',
      json_body = Inl ValueError, body_text = ''Internal Server Error''\<rparr>"



definition json_ok :: "pyval \<Rightarrow> response" where
  "json_ok v =
     \<lparr>status_code = 200, content_type = Some ''application/json'',
      json_body = Inr v, body_text = []\<rparr>"

definition text_ok :: "string \<Rightarrow> response" where
  "text_ok s =
     \<lparr>status_code = 200, content_type = Some ''text/plain'',
      json_body = Inl ValueError, body_text = s\<rparr>"

text \<open>The sample worlds sleep up to \<open>9223372036\<close> seconds either way, the whole
  seconds within \<open>2 ^ 63\<close> nanoseconds.\<close>

definition serving :: "(nat \<Rightarrow> exn + response) \<Rightarrow> world" where
  "serving answers =
     \<lparr>requests_get = (\<lambda>n q. answers n),
      replace_one = (\<lambda>n f d. Inr \<lparr>upserted_id = PStr ''new_id'', modified_count = 0\<rparr>),
      strptime = Map.empty,
      utcnow = (\<lambda>n. 0),
      sleep_min = - 9223372036,
      sleep_max = 9223372036\<rparr>"

definition always_failing :: "nat \<Rightarrow> exn + response" where
  "always_failing n = (if n = 0 then Inl RequestException else Inr server_error)"




text \<open>A world whose store answers every write with the same outcome, the document of
  the loader's tests, the list response of the extractor's tests, and servers for the
  list action.\<close>

definition storing :: "exn + update_result \<Rightarrow> world" where
  "storing outcome =
     \<lparr>requests_get = (\<lambda>n q. Inl RequestException),
      replace_one = (\<lambda>n f d. outcome),
      strptime = Map.empty,
      utcnow = (\<lambda>n. 0),
      sleep_min = - 9223372036,
      sleep_max = 9223372036\<rparr>"

definition test_data :: pydict where
  "test_data =
     [(''sha256'', PStr ''e3b0c44298fc1c149afbf4c8996fb92427ae41e4649b934ca495991b7852b855''),
      (''source'', PStr ''test''),
      (''ingestion_timestamp'', PDatetime 0)]"

definition sample_list_response :: pyval where
  "sample_list_response =
     PDict [(''data'', PList [PStr ''hash1'', PStr ''hash2'', PStr ''hash3'', PStr ''''])]"

definition list_server :: "nat \<Rightarrow> exn + response" where
  "list_server n = Inr (json_ok sample_list_response)"

definition listing_text :: string where
  "listing_text = ''  hash1 '' @ [CHR 0x0A, CHR 0x0A, CHR 0x09] @ ''hash2'' @ [CHR 0x0A]"

definition text_server :: "nat \<Rightarrow> exn + response" where
  "text_server n = Inr (text_ok listing_text)"

definition alphabet_server :: "nat \<Rightarrow> exn + response" where
  "alphabet_server n =
     (if n = 0
      then Inr (json_ok (PDict [(''data'', PList (map (\<lambda>c. PStr [c]) ''abcdefghijklmnopqrstuvwxyz''))]))
      else Inr (json_ok sample_api_response))"

section \<open>Lookups in the transformed record\<close>

lemma map_of_copy_field:
  "map_of (copy_field raw e t) k =
     (case map_of raw (fst e) of None \<Rightarrow> map_of t k | Some v \<Rightarrow> if k = snd e then Some v else map_of t k)"
  by (simp add: copy_field_def update_conv' split: option.splits)

lemma map_of_fold_copy_other:
  "k \<notin> snd ` set fm \<Longrightarrow> map_of (fold (copy_field raw) fm t) k = map_of t k"
  by (induction fm arbitrary: t) (auto simp: map_of_copy_field split: option.splits)

lemma map_of_fold_copy_field:
  "distinct (map snd fm) \<Longrightarrow> (a, k) \<in> set fm \<Longrightarrow>
   map_of (fold (copy_field raw) fm t) k =
     (case map_of raw a of None \<Rightarrow> map_of t k | Some v \<Rightarrow> Some v)"
proof (induction fm arbitrary: t)
  case Nil
  then show ?case by simp
next
  case (Cons e fm)
  show ?case
  proof (cases "e = (a, k)")
    case True
    with Cons.prems have "k \<notin> snd ` set fm" by force
    then show ?thesis using True
      by (simp add: map_of_fold_copy_other map_of_copy_field split: option.splits)
  next
    case False
    with Cons.prems have mem: "(a, k) \<in> set fm" and d: "distinct (map snd fm)"
      by auto
    from mem have "k \<in> snd ` set fm" by force
    with Cons.prems have ne: "snd e \<noteq> k" by auto
    show ?thesis using Cons.IH[OF d mem] ne
      by (simp add: map_of_copy_field split: option.splits)
  qed
qed

lemma std_fields:
  "snd ` set field_mapping =
     {''md5'', ''sha1'', ''sha256_confirmed'', ''ssdeep'', ''file_type'', ''sources'', ''date_added''}"
  by (simp add: field_mapping_def)

lemma map_of_copy_fields_other:
  "k \<notin> {''md5'', ''sha1'', ''sha256_confirmed'', ''ssdeep'', ''file_type'', ''sources'', ''date_added''}
   \<Longrightarrow> map_of (copy_fields raw t) k = map_of t k"
  unfolding copy_fields_def std_fields[symmetric] by (rule map_of_fold_copy_other)

lemma map_of_copy_fields_confirmed:
  "map_of (copy_fields raw t) ''sha256_confirmed'' =
     (case map_of raw ''SHA256'' of None \<Rightarrow> map_of t ''sha256_confirmed'' | Some v \<Rightarrow> Some v)"
  unfolding copy_fields_def
  by (rule map_of_fold_copy_field) (simp_all add: field_mapping_def)

lemma map_of_parse_date:
  "parse_date parse raw t = Inr t' \<Longrightarrow> k \<noteq> ''date_added_parsed'' \<Longrightarrow> map_of t' k = map_of t k"
  by (auto simp: parse_date_def update_conv' split: option.splits pyval.splits)

lemma map_of_classify:
  "classify raw t = Inr t' \<Longrightarrow> k \<noteq> ''sample_type'' \<Longrightarrow> map_of t' k = map_of t k"
  by (auto simp: classify_def update_conv' split: option.splits pyval.splits)

lemma classify_sample_type:
  "classify raw t = Inr t' \<Longrightarrow>
   map_of t' ''sample_type'' = Some (PStr (sample_type_of (lower (file_type_of raw))))"
  by (auto simp: classify_def file_type_of_def update_conv' split: option.splits pyval.splits)

lemma map_of_add_completeness:
  "map_of (add_completeness raw_data t) k =
     (if k = ''data_completeness'' then Some (PFloat (calculate_completeness raw_data)) else map_of t k)"
  by (simp add: add_completeness_def update_conv')

lemma parse_date_returns:
  "(\<exists>t'. parse_date parse raw t = Inr t') = str_or_absent raw ''ADDED''"
  by (auto simp: parse_date_def str_or_absent_def split: option.splits pyval.splits)

lemma classify_returns:
  "(\<exists>t'. classify raw t = Inr t') = str_or_absent raw ''F_TYPE''"
  by (auto simp: classify_def str_or_absent_def split: option.splits pyval.splits)

lemma transform_data_dict_returns:
  "(\<exists>r. transform_data parse now (PDict raw) h = Inr r) =
     (str_or_absent raw ''ADDED'' \<and> str_or_absent raw ''F_TYPE'')"
proof (cases "parse_date parse raw (copy_fields raw (metadata now (PDict raw) h))")
  case (Inl e)
  then show ?thesis
    using parse_date_returns[of parse raw "copy_fields raw (metadata now (PDict raw) h)"] by simp
next
  case (Inr t1)
  then have added: "str_or_absent raw ''ADDED''"
    using parse_date_returns[of parse raw "copy_fields raw (metadata now (PDict raw) h)"] by simp
  show ?thesis
  proof (cases "classify raw t1")
    case (Inl e)
    then show ?thesis using Inr classify_returns[of raw t1] by simp
  next
    case (Inr t2)
    then show ?thesis
      using \<open>parse_date parse raw (copy_fields raw (metadata now (PDict raw) h)) = Inr t1\<close>
        added classify_returns[of raw t1] by simp
  qed
qed

lemma transform_data_dictE:
  assumes "transform_data parse now (PDict raw) h = Inr r"
  obtains t1 t2 where
    "parse_date parse raw (copy_fields raw (metadata now (PDict raw) h)) = Inr t1"
    "classify raw t1 = Inr t2"
    "r = add_completeness (PDict raw) t2"
  using assms by (auto split: sum.splits)

lemma transform_data_non_dict:
  "\<not> is_dict raw_data \<Longrightarrow>
   transform_data parse now raw_data h = Inr (add_completeness raw_data (metadata now raw_data h))"
  by (cases raw_data) simp_all

lemma completeness_unit_interval:
  "0 \<le> calculate_completeness v \<and> calculate_completeness v \<le> 1"
proof (cases v)
  case (PDict d)
  have "length (filter (field_present d) expected_fields) \<le> length expected_fields"
    by (rule length_filter_le)
  then show ?thesis using PDict by (simp add: expected_fields_def)
qed simp_all

lemma sample_type_of_range:
  "sample_type_of ft \<in> {''executable'', ''document'', ''archive'', ''unknown''}"
  by (simp add: sample_type_of_def)

text \<open>The file types of the test suite.\<close>

lemma sample_type_examples:
  "sample_type_of (lower ''PE32 executable'') = ''executable''
   \<and> sample_type_of (lower ''PDF document'') = ''document''
   \<and> sample_type_of (lower ''ZIP archive'') = ''archive''
   \<and> sample_type_of (lower ''Unknown file type'') = ''unknown''"
  by code_simp

lemma transform_data_sample_type:
  assumes "transform_data parse now (PDict raw) h = Inr r"
  shows "map_of r ''sample_type'' = Some (PStr (sample_type_of (lower (file_type_of raw))))"
proof -
  from assms obtain t1 t2 where
    c: "classify raw t1 = Inr t2" and r: "r = add_completeness (PDict raw) t2"
    by (rule transform_data_dictE)
  show ?thesis unfolding r by (simp add: map_of_add_completeness classify_sample_type[OF c])
qed

section \<open>Claims about the transformer\<close>

text \<open>C1. The spec has \<^verbatim>\<open>transform_data\<close> return a record for every raw input. On a
  mapping whose \<^verbatim>\<open>F_TYPE\<close> is \<^verbatim>\<open>None\<close> (JSON \<^verbatim>\<open>null\<close>) the call
  \<^verbatim>\<open>raw_data.get('F_TYPE', '').lower()\<close> raises \<^verbatim>\<open>AttributeError\<close>, and on a mapping whose
  \<^verbatim>\<open>ADDED\<close> is a number \<^verbatim>\<open>datetime.strptime\<close> raises \<^verbatim>\<open>TypeError\<close>, which the
  \<^verbatim>\<open>except ValueError\<close> does not catch: in both cases no record is returned, whatever
  the identifier, the clock and the date parser.\<close>

theorem transform_data_raises_on_non_string_field:
  "transform_data parse now (PDict [(''F_TYPE'', PNone)]) sample_hash = Inl AttributeError
   \<and> transform_data parse now (PDict [(''ADDED'', PInt 20240115)]) sample_hash = Inl TypeError"
  by (simp add: parse_date_def classify_def copy_fields_def field_mapping_def copy_field_def metadata_def)

text \<open>C6. Whenever \<^verbatim>\<open>transform_data\<close> returns a record \<open>r\<close> for a mapping \<open>raw\<close>,
  and \<open>ft\<close> is the lower-cased file-type string of \<open>raw\<close> (empty when \<^verbatim>\<open>F_TYPE\<close> is absent),
  the field \<^verbatim>\<open>sample_type\<close> of \<open>r\<close> follows the substring rules in priority order:
  \<^verbatim>\<open>pe32\<close> or \<^verbatim>\<open>executable\<close> gives \<^verbatim>\<open>executable\<close>; else \<^verbatim>\<open>pdf\<close> gives \<^verbatim>\<open>document\<close>;
  else \<^verbatim>\<open>zip\<close> or \<^verbatim>\<open>archive\<close> gives \<^verbatim>\<open>archive\<close>; else \<^verbatim>\<open>unknown\<close>.\<close>

theorem sample_type_priority_rules:
  assumes "transform_data parse now (PDict raw) h = Inr r"
    and "ft = lower (file_type_of raw)"
  shows "(sublist ''pe32'' ft \<or> sublist ''executable'' ft
            \<longrightarrow> map_of r ''sample_type'' = Some (PStr ''executable''))
       \<and> (\<not> sublist ''pe32'' ft \<and> \<not> sublist ''executable'' ft \<and> sublist ''pdf'' ft
            \<longrightarrow> map_of r ''sample_type'' = Some (PStr ''document''))
       \<and> (\<not> sublist ''pe32'' ft \<and> \<not> sublist ''executable'' ft \<and> \<not> sublist ''pdf'' ft
            \<and> (sublist ''zip'' ft \<or> sublist ''archive'' ft)
            \<longrightarrow> map_of r ''sample_type'' = Some (PStr ''archive''))
       \<and> (\<not> sublist ''pe32'' ft \<and> \<not> sublist ''executable'' ft \<and> \<not> sublist ''pdf'' ft
            \<and> \<not> sublist ''zip'' ft \<and> \<not> sublist ''archive'' ft
            \<longrightarrow> map_of r ''sample_type'' = Some (PStr ''unknown''))"
  unfolding transform_data_sample_type[OF assms(1)] assms(2)
  by (simp add: sample_type_of_def)

text \<open>C10. Whenever \<^verbatim>\<open>transform_data\<close> returns a record \<open>r\<close> for a mapping \<open>raw\<close> and an
  identifier \<open>h\<close>, the field \<^verbatim>\<open>sha256\<close> of \<open>r\<close> is \<open>h\<close>, whatever \<open>raw\<close> holds under
  \<^verbatim>\<open>SHA256\<close>; the provider's value is under \<^verbatim>\<open>sha256_confirmed\<close> (absent when the
  provider gave none).\<close>

theorem primary_key_is_identifier:
  assumes "transform_data parse now (PDict raw) h = Inr r"
  shows "map_of r ''sha256'' = Some (PStr h)
       \<and> map_of r ''sha256_confirmed'' = map_of raw ''SHA256''"
proof -
  from assms obtain t1 t2 where
    p: "parse_date parse raw (copy_fields raw (metadata now (PDict raw) h)) = Inr t1" and
    c: "classify raw t1 = Inr t2" and r: "r = add_completeness (PDict raw) t2"
    by (rule transform_data_dictE)
  have key: "map_of r ''sha256'' = Some (PStr h)"
    unfolding r
    by (simp add: map_of_add_completeness map_of_classify[OF c] map_of_parse_date[OF p]
        map_of_copy_fields_other metadata_def)
  have conf: "map_of r ''sha256_confirmed'' = map_of raw ''SHA256''"
    unfolding r
    by (simp add: map_of_add_completeness map_of_classify[OF c] map_of_parse_date[OF p]
        map_of_copy_fields_confirmed metadata_def split: option.splits)
  from key conf show ?thesis by simp
qed

text \<open>A file type that names both a PDF and a ZIP archive is a document.\<close>

theorem sample_type_priority_rules_witness:
  "transform_data Map.empty 0 (PDict [(''F_TYPE'', PStr ''PDF of a ZIP archive'')]) ''h1'' =
     Inr [(''sha256'', PStr ''h1''), (''ingestion_timestamp'', PDatetime 0),
          (''source'', PStr ''malshare_api''), (''connector_version'', PStr ''1.0''),
          (''raw_response'', PDict [(''F_TYPE'', PStr ''PDF of a ZIP archive'')]),
          (''file_type'', PStr ''PDF of a ZIP archive''),
          (''sample_type'', PStr ''document''), (''data_completeness'', PFloat (1 / 5))]
   \<and> ''pdf of a zip archive'' = lower (file_type_of [(''F_TYPE'', PStr ''PDF of a ZIP archive'')])
   \<and> \<not> sublist ''pe32'' ''pdf of a zip archive''
   \<and> \<not> sublist ''executable'' ''pdf of a zip archive''
   \<and> sublist ''pdf'' ''pdf of a zip archive''
   \<and> sublist ''zip'' ''pdf of a zip archive''"
proof -
  have run: "transform_data Map.empty 0 (PDict [(''F_TYPE'', PStr ''PDF of a ZIP archive'')]) ''h1'' =
     Inr [(''sha256'', PStr ''h1''), (''ingestion_timestamp'', PDatetime 0),
          (''source'', PStr ''malshare_api''), (''connector_version'', PStr ''1.0''),
          (''raw_response'', PDict [(''F_TYPE'', PStr ''PDF of a ZIP archive'')]),
          (''file_type'', PStr ''PDF of a ZIP archive''),
          (''sample_type'', PStr ''document''), (''data_completeness'', PFloat (1 / 5))]"
    by code_simp
  have ft: "''pdf of a zip archive'' = lower (file_type_of [(''F_TYPE'', PStr ''PDF of a ZIP archive'')])"
    by code_simp
  have subs: "\<not> sublist ''pe32'' ''pdf of a zip archive''
     \<and> \<not> sublist ''executable'' ''pdf of a zip archive''
     \<and> sublist ''pdf'' ''pdf of a zip archive''
     \<and> sublist ''zip'' ''pdf of a zip archive''"
    by code_simp
  from sample_type_priority_rules[OF run ft] run ft subs show ?thesis by simp
qed

text \<open>A provider hash that differs from the identifier lands under
  \<^verbatim>\<open>sha256_confirmed\<close>.\<close>

theorem primary_key_is_identifier_witness:
  "transform_data Map.empty 0 (PDict [(''SHA256'', PStr ''provider'')]) ''ident'' =
     Inr [(''sha256'', PStr ''ident''), (''ingestion_timestamp'', PDatetime 0),
          (''source'', PStr ''malshare_api''), (''connector_version'', PStr ''1.0''),
          (''raw_response'', PDict [(''SHA256'', PStr ''provider'')]),
          (''sha256_confirmed'', PStr ''provider''),
          (''sample_type'', PStr ''unknown''), (''data_completeness'', PFloat (1 / 5))]
   \<and> map_of [(''sha256'', PStr ''ident''), (''ingestion_timestamp'', PDatetime 0),
          (''source'', PStr ''malshare_api''), (''connector_version'', PStr ''1.0''),
          (''raw_response'', PDict [(''SHA256'', PStr ''provider'')]),
          (''sha256_confirmed'', PStr ''provider''),
          (''sample_type'', PStr ''unknown''), (''data_completeness'', PFloat (1 / 5))] ''sha256''
       = Some (PStr ''ident'')"
proof -
  have run: "transform_data Map.empty 0 (PDict [(''SHA256'', PStr ''provider'')]) ''ident'' =
     Inr [(''sha256'', PStr ''ident''), (''ingestion_timestamp'', PDatetime 0),
          (''source'', PStr ''malshare_api''), (''connector_version'', PStr ''1.0''),
          (''raw_response'', PDict [(''SHA256'', PStr ''provider'')]),
          (''sha256_confirmed'', PStr ''provider''),
          (''sample_type'', PStr ''unknown''), (''data_completeness'', PFloat (1 / 5))]"
    by code_simp
  from primary_key_is_identifier[OF run] run show ?thesis by simp
qed

section \<open>Claims about the completeness score\<close>

lemma length_filter_card:
  "distinct xs \<Longrightarrow> length (filter P xs) = card {x \<in> set xs. P x}"
  by (simp add: distinct_length_filter Int_def conj_commute)

text \<open>C7. For a mapping, the completeness score is the number of the five expected
  fields \<^verbatim>\<open>MD5\<close>, \<^verbatim>\<open>SHA1\<close>, \<^verbatim>\<open>SHA256\<close>, \<^verbatim>\<open>F_TYPE\<close>, \<^verbatim>\<open>ADDED\<close> that are present with
  a truthy value, divided by five; for anything that is not a mapping it is zero; it is
  always between zero and one.\<close>

theorem completeness_is_share_of_expected_fields:
  "calculate_completeness (PDict d) =
     real (card {f \<in> {''MD5'', ''SHA1'', ''SHA256'', ''F_TYPE'', ''ADDED''}.
                  \<exists>v. map_of d f = Some v \<and> truthy v}) / 5
   \<and> (\<not> is_dict v \<longrightarrow> calculate_completeness v = 0)
   \<and> 0 \<le> calculate_completeness v \<and> calculate_completeness v \<le> 1"
proof -
  have set_eq: "set expected_fields = {''MD5'', ''SHA1'', ''SHA256'', ''F_TYPE'', ''ADDED''}"
    by (simp add: expected_fields_def)
  have present: "field_present d f = (\<exists>v. map_of d f = Some v \<and> truthy v)" for f
    by (simp add: field_present_def split: option.splits)
  have "length (filter (field_present d) expected_fields)
          = card {f \<in> set expected_fields. field_present d f}"
    by (rule length_filter_card) (simp add: expected_fields_def)
  then have frac: "calculate_completeness (PDict d) =
     real (card {f \<in> {''MD5'', ''SHA1'', ''SHA256'', ''F_TYPE'', ''ADDED''}.
                  \<exists>v. map_of d f = Some v \<and> truthy v}) / 5"
    by (simp add: set_eq present) (simp add: expected_fields_def)
  have nd: "\<not> is_dict v \<longrightarrow> calculate_completeness v = 0"
    by (cases v) simp_all
  from frac nd completeness_unit_interval[of v] show ?thesis by simp
qed

text \<open>The record of the test suite with all five fields scores 1, two of five score
  0.4, the empty record scores 0, falsy values do not count, and a list scores 0.\<close>

theorem completeness_is_share_of_expected_fields_witness:
  "calculate_completeness
     (PDict [(''MD5'', PStr ''d41d8cd98f00b204e9800998ecf8427e''),
             (''SHA1'', PStr ''da39a3ee5e6b4b0d3255bfef95601890afd80709''),
             (''SHA256'', PStr ''e3b0c44298fc1c149afbf4c8996fb92427ae41e4649b934ca495991b7852b855''),
             (''SSDEEP'', PStr ''3::''),
             (''F_TYPE'', PStr ''PE32 executable''),
             (''SOURCES'', PList [PStr ''virustotal'']),
             (''ADDED'', PStr ''2024-01-15 10:30:00'')]) = 1
   \<and> calculate_completeness (PDict [(''MD5'', PStr ''hash''), (''SHA1'', PStr ''hash'')]) = 0.4
   \<and> calculate_completeness (PDict []) = 0
   \<and> calculate_completeness (PDict [(''MD5'', PStr ''''), (''SHA1'', PNone), (''ADDED'', PInt 0)]) = 0
   \<and> \<not> is_dict (PList [PStr ''MD5''])
   \<and> calculate_completeness (PList [PStr ''MD5'']) = 0"
proof -
  have nd: "\<not> is_dict (PList [PStr ''MD5''])" by simp
  from completeness_is_share_of_expected_fields[of "[]" "PList [PStr ''MD5'']"] nd
  have z: "calculate_completeness (PList [PStr ''MD5'']) = 0" by blast
  have a: "calculate_completeness
     (PDict [(''MD5'', PStr ''d41d8cd98f00b204e9800998ecf8427e''),
             (''SHA1'', PStr ''da39a3ee5e6b4b0d3255bfef95601890afd80709''),
             (''SHA256'', PStr ''e3b0c44298fc1c149afbf4c8996fb92427ae41e4649b934ca495991b7852b855''),
             (''SSDEEP'', PStr ''3::''),
             (''F_TYPE'', PStr ''PE32 executable''),
             (''SOURCES'', PList [PStr ''virustotal'']),
             (''ADDED'', PStr ''2024-01-15 10:30:00'')]) = 1"
    by (simp add: expected_fields_def field_present_def)
  have b: "calculate_completeness (PDict [(''MD5'', PStr ''hash''), (''SHA1'', PStr ''hash'')]) = 0.4"
    by (simp add: expected_fields_def field_present_def)
  have c: "calculate_completeness (PDict []) = 0"
    by (simp add: expected_fields_def field_present_def)
  have e: "calculate_completeness (PDict [(''MD5'', PStr ''''), (''SHA1'', PNone), (''ADDED'', PInt 0)]) = 0"
    by (simp add: expected_fields_def field_present_def)
  from a b c e nd z show ?thesis by (intro conjI)
qed

section \<open>Claims about the presence of the sample type\<close>

text \<open>C9. The claim has every mapping yield a \<^verbatim>\<open>sample_type\<close> among \<^verbatim>\<open>executable\<close>,
  \<^verbatim>\<open>document\<close>, \<^verbatim>\<open>archive\<close>, \<^verbatim>\<open>unknown\<close>. On a mapping whose \<^verbatim>\<open>F_TYPE\<close> is a number
  the call \<^verbatim>\<open>raw_data.get('F_TYPE', '').lower()\<close> raises \<^verbatim>\<open>AttributeError\<close>: no record
  is returned, hence no \<^verbatim>\<open>sample_type\<close>. The defect is the one of C1.\<close>

theorem mapping_without_sample_type:
  "is_dict (PDict [(''MD5'', PStr ''d41d8cd98f00b204e9800998ecf8427e''), (''F_TYPE'', PInt 7)])
   \<and> transform_data Map.empty 0
       (PDict [(''MD5'', PStr ''d41d8cd98f00b204e9800998ecf8427e''), (''F_TYPE'', PInt 7)]) ''abc''
     = Inl AttributeError"
  by code_simp

text \<open>Where the sample type is found. A raw input that is not a mapping gives a record
  without the field \<^verbatim>\<open>sample_type\<close>; a mapping whose \<^verbatim>\<open>ADDED\<close> and \<^verbatim>\<open>F_TYPE\<close>
  values are strings or absent gives a record; and every record given for a mapping has a
  \<^verbatim>\<open>sample_type\<close> among the four.\<close>

lemma sample_type_only_for_mappings:
  "(\<not> is_dict raw_data \<longrightarrow>
      (\<exists>r. transform_data parse now raw_data h = Inr r \<and> map_of r ''sample_type'' = None))
   \<and> (str_or_absent d ''ADDED'' \<and> str_or_absent d ''F_TYPE'' \<longrightarrow>
      (\<exists>r. transform_data parse now (PDict d) h = Inr r))
   \<and> (\<forall>r. transform_data parse now (PDict d) h = Inr r \<longrightarrow>
      map_of r ''sample_type'' \<in>
        {Some (PStr ''executable''), Some (PStr ''document''),
         Some (PStr ''archive''), Some (PStr ''unknown'')})"
proof (intro conjI impI allI)
  assume "\<not> is_dict raw_data"
  then have "transform_data parse now raw_data h =
      Inr (add_completeness raw_data (metadata now raw_data h))"
    by (rule transform_data_non_dict)
  moreover have "map_of (add_completeness raw_data (metadata now raw_data h)) ''sample_type'' = None"
    by (simp add: map_of_add_completeness metadata_def)
  ultimately show "\<exists>r. transform_data parse now raw_data h = Inr r \<and> map_of r ''sample_type'' = None"
    by blast
next
  assume "str_or_absent d ''ADDED'' \<and> str_or_absent d ''F_TYPE''"
  then show "\<exists>r. transform_data parse now (PDict d) h = Inr r"
    by (simp only: transform_data_dict_returns)
next
  fix r
  assume "transform_data parse now (PDict d) h = Inr r"
  then have "map_of r ''sample_type'' = Some (PStr (sample_type_of (lower (file_type_of d))))"
    by (rule transform_data_sample_type)
  then show "map_of r ''sample_type'' \<in>
        {Some (PStr ''executable''), Some (PStr ''document''),
         Some (PStr ''archive''), Some (PStr ''unknown'')}"
    using sample_type_of_range[of "lower (file_type_of d)"] by simp
qed

section \<open>Claims about the request executor\<close>

lemma wait_accepted_iff:
  "wait_accepted cfg w a =
     (a < 1024 \<and>
      (\<exists>d. rate_limit_delay cfg = Finite d \<and> 0 \<le> d \<and> d * 2 ^ a < 2 ^ 1024
           \<and> sleep_min w \<le> d * 2 ^ a \<and> d * 2 ^ a \<le> sleep_max w))"
proof (cases "rate_limit_delay cfg")
  case (Finite d)
  define x where "x = d * 2 ^ a"
  have pos: "(0 \<le> x) = (0 \<le> d)"
    unfolding x_def by (simp add: zero_le_mult_iff power_le_zero_eq)
  have "times_pow2 (Finite d) a = (if 2 ^ 1024 \<le> \<bar>x\<bar> then (if 0 < d then PosInf else NegInf) else Finite x)"
    unfolding x_def by (simp only: times_pow2_def pyfloat.case)
  then have "wait_accepted cfg w a =
      (a < 1024 \<and> \<bar>x\<bar> < 2 ^ 1024 \<and> sleep_min w \<le> x \<and> x \<le> sleep_max w \<and> 0 \<le> x)"
    using Finite
    by (cases "a < 1024"; cases "2 ^ 1024 \<le> \<bar>x\<bar>"; cases "0 < d")
       (auto simp only: wait_accepted_def wait_time_def time_sleep_def not_less not_le
          sum.case pyfloat.case if_True if_False option.distinct simp_thms split: if_splits)
  also have "\<dots> = (a < 1024 \<and> 0 \<le> d \<and> x < 2 ^ 1024 \<and> sleep_min w \<le> x \<and> x \<le> sleep_max w)"
    using pos by (cases "0 \<le> x") auto
  finally show ?thesis using Finite by (simp only: x_def pyfloat.inject simp_thms ex_simps)
qed (simp_all add: wait_accepted_def wait_time_def times_pow2_def time_sleep_def)


















section \<open>Claims about the loader\<close>

lemma transformed_has_primary_key:
  assumes "transform_data parse now raw_data h = Inr r"
  shows "map_of r ''sha256'' = Some (PStr h)"
proof (cases "is_dict raw_data")
  case True
  then obtain raw where raw: "raw_data = PDict raw" by (cases raw_data) simp_all
  from assms[unfolded raw] obtain t1 t2 where
    p: "parse_date parse raw (copy_fields raw (metadata now (PDict raw) h)) = Inr t1" and
    c: "classify raw t1 = Inr t2" and r: "r = add_completeness (PDict raw) t2"
    by (rule transform_data_dictE)
  show ?thesis
    unfolding r
    by (simp add: map_of_add_completeness map_of_classify[OF c] map_of_parse_date[OF p]
        map_of_copy_fields_other metadata_def)
next
  case False
  with assms have "r = add_completeness raw_data (metadata now raw_data h)"
    by (simp add: transform_data_non_dict)
  then show ?thesis by (simp add: map_of_add_completeness metadata_def)
qed

lemma load_data_with_key:
  assumes "map_of doc ''sha256'' = Some key"
  shows "fst (load_data w doc st) =
     (case replace_one w (writes st) [(''sha256'', key)] doc of Inl e \<Rightarrow> Inr False | Inr result \<Rightarrow> Inr True)"
  using assms by (simp add: load_data_def split: sum.splits)

text \<open>C4. For every record, that is a document holding the primary key \<^verbatim>\<open>sha256\<close>,
  \<^verbatim>\<open>load_data\<close> returns a boolean and raises nothing: \<^verbatim>\<open>True\<close> whatever result
  \<^verbatim>\<open>replace_one\<close> returns (an insert, a replacement that changed the document, one that
  changed nothing), \<^verbatim>\<open>False\<close> whatever exception it raises. Every record
  \<^verbatim>\<open>transform_data\<close> returns is such a document.\<close>

theorem load_data_reports_boolean:
  "(map_of doc ''sha256'' = Some key \<longrightarrow>
      (\<exists>ok. fst (load_data w doc st) = Inr ok)
      \<and> (\<forall>result. replace_one w (writes st) [(''sha256'', key)] doc = Inr result \<longrightarrow>
            fst (load_data w doc st) = Inr True)
      \<and> (\<forall>e. replace_one w (writes st) [(''sha256'', key)] doc = Inl e \<longrightarrow>
            fst (load_data w doc st) = Inr False))
   \<and> (transform_data parse now raw_data h = Inr doc \<longrightarrow>
      (\<exists>ok. fst (load_data w doc st) = Inr ok))"
proof (intro conjI impI allI)
  assume k: "map_of doc ''sha256'' = Some key"
  show "\<exists>ok. fst (load_data w doc st) = Inr ok"
    unfolding load_data_with_key[OF k] by (cases "replace_one w (writes st) [(''sha256'', key)] doc") auto
  show "fst (load_data w doc st) = Inr True"
    if "replace_one w (writes st) [(''sha256'', key)] doc = Inr result" for result
    unfolding load_data_with_key[OF k] using that by simp
  show "fst (load_data w doc st) = Inr False"
    if "replace_one w (writes st) [(''sha256'', key)] doc = Inl e" for e
    unfolding load_data_with_key[OF k] using that by simp
next
  assume "transform_data parse now raw_data h = Inr doc"
  then have k: "map_of doc ''sha256'' = Some (PStr h)" by (rule transformed_has_primary_key)
  show "\<exists>ok. fst (load_data w doc st) = Inr ok"
    unfolding load_data_with_key[OF k] by (cases "replace_one w (writes st) [(''sha256'', PStr h)] doc") auto
qed

text \<open>The document of the loader's tests: inserted, replaced with a change, replaced
  without one, and refused by the store.\<close>

theorem load_data_reports_boolean_witness:
  "map_of test_data ''sha256'' =
     Some (PStr ''e3b0c44298fc1c149afbf4c8996fb92427ae41e4649b934ca495991b7852b855'')
   \<and> fst (load_data (storing (Inr \<lparr>upserted_id = PStr ''new_id'', modified_count = 0\<rparr>)) test_data start)
       = Inr True
   \<and> fst (load_data (storing (Inr \<lparr>upserted_id = PNone, modified_count = 1\<rparr>)) test_data start)
       = Inr True
   \<and> fst (load_data (storing (Inr \<lparr>upserted_id = PNone, modified_count = 0\<rparr>)) test_data start)
       = Inr True
   \<and> fst (load_data (storing (Inl StoreError)) test_data start) = Inr False"
proof -
  have k: "map_of test_data ''sha256'' =
     Some (PStr ''e3b0c44298fc1c149afbf4c8996fb92427ae41e4649b934ca495991b7852b855'')"
    by (simp add: test_data_def)
  have a: "fst (load_data (storing (Inr \<lparr>upserted_id = PStr ''new_id'', modified_count = 0\<rparr>)) test_data start)
       = Inr True"
    using load_data_reports_boolean[where doc = test_data and st = start
        and w = "storing (Inr \<lparr>upserted_id = PStr ''new_id'', modified_count = 0\<rparr>)"] k
    by (simp add: storing_def)
  have b: "fst (load_data (storing (Inr \<lparr>upserted_id = PNone, modified_count = 1\<rparr>)) test_data start)
       = Inr True"
    using load_data_reports_boolean[where doc = test_data and st = start
        and w = "storing (Inr \<lparr>upserted_id = PNone, modified_count = 1\<rparr>)"] k
    by (simp add: storing_def)
  have c: "fst (load_data (storing (Inr \<lparr>upserted_id = PNone, modified_count = 0\<rparr>)) test_data start)
       = Inr True"
    using load_data_reports_boolean[where doc = test_data and st = start
        and w = "storing (Inr \<lparr>upserted_id = PNone, modified_count = 0\<rparr>)"] k
    by (simp add: storing_def)
  have d: "fst (load_data (storing (Inl StoreError)) test_data start) = Inr False"
    using load_data_reports_boolean[where doc = test_data and st = start
        and w = "storing (Inl StoreError)"] k
    by (simp add: storing_def)
  from k a b c d show ?thesis by (intro conjI)
qed

section \<open>Claims about the extractor\<close>

lemma stripped_nonempty_strs:
  "stripped_nonempty (map PStr lines) = Inr (filter (\<lambda>l. l \<noteq> []) (map strip lines))"
  by (induction lines) simp_all

lemma last_dropWhile_eq:
  "dropWhile P xs \<noteq> [] \<Longrightarrow> last (dropWhile P xs) = last xs"
  by (induction xs) (auto split: if_splits)

lemma trimmed_strip: "trimmed (strip s)"
proof (cases "strip s = []")
  case True
  then show ?thesis by (simp add: trimmed_def)
next
  case False
  let ?t = "dropWhile is_space s"
  let ?u = "dropWhile is_space (rev ?t)"
  have s: "strip s = rev ?u" by (simp add: strip_def)
  with False have u: "?u \<noteq> []" by simp
  have t: "?t \<noteq> []"
  proof
    assume e: "?t = []"
    have "?u = []" unfolding e by simp
    with u show False by (simp only:)
  qed
  have "last (strip s) = hd ?u" unfolding s using u by (simp add: last_rev)
  then have l: "\<not> is_space (last (strip s))" using hd_dropWhile[OF u] by simp
  have "hd (strip s) = last ?u" unfolding s using u by (simp add: hd_rev)
  also have "\<dots> = last (rev ?t)" using u by (rule last_dropWhile_eq)
  also have "\<dots> = hd ?t" using t by (simp add: last_rev)
  finally have h: "\<not> is_space (hd (strip s))" using hd_dropWhile[OF t] by simp
  from False h l show ?thesis by (simp add: trimmed_def)
qed

lemma samples_of_data_lines:
  assumes "map_of d ''data'' = Some (PList (map PStr lines))"
  shows "samples_of_response (PDict d) limit =
     Inr (slice_to limit (filter (\<lambda>l. l \<noteq> []) (map strip lines)))"
proof -
  from assms have "d \<noteq> []" by auto
  with assms show ?thesis
    by (simp add: samples_of_response_def stripped_nonempty_strs)
qed

text \<open>C5, amended. When the executor returns \<^verbatim>\<open>None\<close>, \<^verbatim>\<open>extract_sample_list\<close> returns
  the empty list. When it returns a mapping whose \<^verbatim>\<open>data\<close> is a list of lines and the
  limit is not negative, the result is the stripped lines without the empty ones, cut
  to the first \<open>limit\<close>: it has at most \<open>limit\<close> entries, in the order of the lines, each of
  them non-empty and without white space at either end.\<close>

theorem sample_list_is_trimmed_and_truncated:
  assumes "make_api_request cfg w ''getlist'' [] st = (Inr resp, st')"
  shows "(resp = PNone \<longrightarrow> extract_sample_list cfg w limit st = (Inr [], st'))
       \<and> (0 \<le> limit \<and> resp = PDict d \<and> map_of d ''data'' = Some (PList (map PStr lines)) \<longrightarrow>
            (\<exists>samples.
               extract_sample_list cfg w limit st = (Inr samples, st')
               \<and> samples = take (nat limit) (filter (\<lambda>l. l \<noteq> []) (map strip lines))
               \<and> int (length samples) \<le> limit
               \<and> subseq samples (map strip lines)
               \<and> (\<forall>s \<in> set samples. s \<noteq> [] \<and> trimmed s)))"
proof (intro conjI impI)
  assume "resp = PNone"
  with assms show "extract_sample_list cfg w limit st = (Inr [], st')"
    by (simp add: extract_sample_list_def samples_of_response_def)
next
  assume h: "0 \<le> limit \<and> resp = PDict d \<and> map_of d ''data'' = Some (PList (map PStr lines))"
  let ?kept = "filter (\<lambda>l. l \<noteq> []) (map strip lines)"
  let ?samples = "take (nat limit) ?kept"
  have run: "extract_sample_list cfg w limit st = (Inr ?samples, st')"
    using assms h samples_of_data_lines[of d lines limit]
    by (simp add: extract_sample_list_def slice_to_def)
  have "length ?samples \<le> nat limit" by simp
  with h have len: "int (length ?samples) \<le> limit" by linarith
  have "prefix ?samples ?kept" by (rule take_is_prefix)
  then have "subseq ?samples ?kept" by (rule prefix_imp_subseq)
  moreover have "subseq ?kept (map strip lines)" by simp
  ultimately have sub: "subseq ?samples (map strip lines)" by (rule subseq_order.order_trans)
  have each: "\<forall>s \<in> set ?samples. s \<noteq> [] \<and> trimmed s"
  proof
    fix s assume "s \<in> set ?samples"
    then have "s \<in> set ?kept" by (rule in_set_takeD)
    then show "s \<noteq> [] \<and> trimmed s" using trimmed_strip by auto
  qed
  from run len sub each
  show "\<exists>samples.
               extract_sample_list cfg w limit st = (Inr samples, st')
               \<and> samples = take (nat limit) (filter (\<lambda>l. l \<noteq> []) (map strip lines))
               \<and> int (length samples) \<le> limit
               \<and> subseq samples (map strip lines)
               \<and> (\<forall>s \<in> set samples. s \<noteq> [] \<and> trimmed s)"
    by blast
qed

text \<open>C5, as stated for every limit, fails: with the limit \<open>-1\<close> the slice
  \<^verbatim>\<open>[:limit]\<close> drops the last entry only, and the two entries that remain are more than
  the limit.\<close>

theorem negative_limit_counterexample:
  "extract_sample_list test_config (serving list_server) (- 1) start =
     (Inr [''hash1'', ''hash2''], \<lparr>calls = 1, sleeps = [], writes = 0\<rparr>)
   \<and> \<not> int (length [''hash1'', ''hash2'']) \<le> - 1"
  by code_simp

text \<open>The list of the extractor's tests with limit 10, a text listing with padded and
  empty lines with limit 1, and a server that always fails.\<close>

theorem sample_list_is_trimmed_and_truncated_witness:
  "make_api_request test_config (serving list_server) ''getlist'' [] start =
      (Inr sample_list_response, \<lparr>calls = 1, sleeps = [], writes = 0\<rparr>)
   \<and> (0 :: int) \<le> 10
   \<and> map_of [(''data'', PList (map PStr [''hash1'', ''hash2'', ''hash3'', '''']))] ''data'' =
       Some (PList (map PStr [''hash1'', ''hash2'', ''hash3'', '''']))
   \<and> extract_sample_list test_config (serving list_server) 10 start =
      (Inr [''hash1'', ''hash2'', ''hash3''], \<lparr>calls = 1, sleeps = [], writes = 0\<rparr>)
   \<and> make_api_request test_config (serving text_server) ''getlist'' [] start =
      (Inr (PDict [(''data'', PList (map PStr [''hash1 '', [], [CHR 0x09] @ ''hash2'']))]),
       \<lparr>calls = 1, sleeps = [], writes = 0\<rparr>)
   \<and> extract_sample_list test_config (serving text_server) 1 start =
      (Inr [''hash1''], \<lparr>calls = 1, sleeps = [], writes = 0\<rparr>)
   \<and> make_api_request test_config (serving always_failing) ''getlist'' [] start =
      (Inr PNone, \<lparr>calls = 2, sleeps = [0.1], writes = 0\<rparr>)
   \<and> extract_sample_list test_config (serving always_failing) 10 start =
      (Inr [], \<lparr>calls = 2, sleeps = [0.1], writes = 0\<rparr>)"
proof -
  have r1: "make_api_request test_config (serving list_server) ''getlist'' [] start =
      (Inr sample_list_response, \<lparr>calls = 1, sleeps = [], writes = 0\<rparr>)"
    by code_simp
  have r2: "make_api_request test_config (serving text_server) ''getlist'' [] start =
      (Inr (PDict [(''data'', PList (map PStr [''hash1 '', [], [CHR 0x09] @ ''hash2'']))]),
       \<lparr>calls = 1, sleeps = [], writes = 0\<rparr>)"
    by code_simp
  have r3: "make_api_request test_config (serving always_failing) ''getlist'' [] start =
      (Inr PNone, \<lparr>calls = 2, sleeps = [0.1], writes = 0\<rparr>)"
    by code_simp
  have m: "map_of [(''data'', PList (map PStr [''hash1'', ''hash2'', ''hash3'', '''']))] ''data'' =
       Some (PList (map PStr [''hash1'', ''hash2'', ''hash3'', '''']))"
    by simp
  have k1: "take (nat 10) (filter (\<lambda>l. l \<noteq> []) (map strip [''hash1'', ''hash2'', ''hash3'', '''']))
      = [''hash1'', ''hash2'', ''hash3'']"
    by code_simp
  have k2: "take (nat 1) (filter (\<lambda>l. l \<noteq> []) (map strip [''hash1 '', [], [CHR 0x09] @ ''hash2'']))
      = [''hash1'']"
    by code_simp
  have e1: "extract_sample_list test_config (serving list_server) 10 start =
      (Inr [''hash1'', ''hash2'', ''hash3''], \<lparr>calls = 1, sleeps = [], writes = 0\<rparr>)"
    using sample_list_is_trimmed_and_truncated[OF r1, of 10
        "[(''data'', PList (map PStr [''hash1'', ''hash2'', ''hash3'', '''']))]"
        "[''hash1'', ''hash2'', ''hash3'', '''']"] m
    unfolding sample_list_response_def k1 by auto
  have e2: "extract_sample_list test_config (serving text_server) 1 start =
      (Inr [''hash1''], \<lparr>calls = 1, sleeps = [], writes = 0\<rparr>)"
    using sample_list_is_trimmed_and_truncated[OF r2, of 1
        "[(''data'', PList (map PStr [''hash1 '', [], [CHR 0x09] @ ''hash2'']))]"
        "[''hash1 '', [], [CHR 0x09] @ ''hash2'']"]
    unfolding k2 by auto
  have e3: "extract_sample_list test_config (serving always_failing) 10 start =
      (Inr [], \<lparr>calls = 2, sleeps = [0.1], writes = 0\<rparr>)"
    using sample_list_is_trimmed_and_truncated[OF r3, of 10] by blast
  have z: "(0 :: int) \<le> 10" by simp
  from r1 z m e1 r2 e2 r3 e3 show ?thesis by (intro conjI)
qed

section \<open>Claims about the pipeline\<close>

lemma slice_to_length: "0 \<le> limit \<Longrightarrow> length (slice_to limit xs) \<le> nat limit"
  by (simp add: slice_to_def)

lemma samples_of_response_length:
  "samples_of_response resp limit = Inr xs \<Longrightarrow> 0 \<le> limit \<Longrightarrow> length xs \<le> nat limit"
  by (auto simp: samples_of_response_def slice_to_length split: if_splits sum.splits bool.splits)

lemma extract_sample_list_length:
  "extract_sample_list cfg w limit st = (Inr xs, st') \<Longrightarrow> 0 \<le> limit \<Longrightarrow> length xs \<le> nat limit"
  by (auto simp: extract_sample_list_def samples_of_response_length split: prod.splits sum.splits)

lemma process_sample_total:
  "process_sample cfg w n i h acc = Inr acc' \<Longrightarrow> total (fst acc') = total (fst acc)"
  by (auto simp: process_sample_def Let_def split: prod.splits sum.splits if_splits)

lemma process_samples_total:
  "process_samples cfg w n i hs acc = Inr acc' \<Longrightarrow> total (fst acc') = total (fst acc)"
proof (induction hs arbitrary: i acc)
  case Nil
  then show ?case by simp
next
  case (Cons h hs)
  then show ?case
    by (auto split: sum.splits dest!: process_sample_total)
qed

lemma run_etl_pipeline_total:
  assumes "run_etl_pipeline cfg w (Some n) st = Inr (Some s, st')" and "0 \<le> n"
  shows "total s \<le> nat n"
proof -
  from assms(1) obtain hs st1 where
    ex: "extract_sample_list cfg w n st = (Inr hs, st1)" and
    ps: "process_samples cfg w (length hs) 1 hs
           (\<lparr>total = length hs, successful_loads = 0, failed_loads = 0\<rparr>, st1) = Inr (s, st')"
    by (auto simp: run_etl_pipeline_def split: prod.splits sum.splits if_splits)
  from process_samples_total[OF ps] have "total s = length hs" by simp
  with extract_sample_list_length[OF ex assms(2)] show ?thesis by simp
qed

text \<open>C8, as stated, fails: called without a limit, \<^verbatim>\<open>run_etl_pipeline\<close> processes all
  26 identifiers of a list of 26, more than 25.\<close>

theorem default_limit_counterexample:
  "run_etl_pipeline test_config (serving alphabet_server) None start =
     Inr (Some \<lparr>total = 26, successful_loads = 26, failed_loads = 0\<rparr>,
          \<lparr>calls = 27, sleeps = replicate 25 0.1, writes = 26\<rparr>)
   \<and> \<not> (26 :: nat) \<le> 25"
  by code_simp

text \<open>C8, amended. Called without a limit, \<^verbatim>\<open>run_etl_pipeline\<close> behaves as with the
  limit 50, and processes at most 50 identifiers. The default of 25 is that of
  \<^verbatim>\<open>main\<close>: when \<^verbatim>\<open>SAMPLE_LIMIT\<close> is not set in the environment it calls the pipeline
  with the limit 25, which then processes at most 25 identifiers.\<close>

theorem default_limit_is_fifty_in_pipeline:
  "run_etl_pipeline cfg w None st = run_etl_pipeline cfg w (Some 50) st
   \<and> (\<forall>s st'. run_etl_pipeline cfg w None st = Inr (Some s, st') \<longrightarrow> total s \<le> 50)
   \<and> (environ ''SAMPLE_LIMIT'' = None \<longrightarrow>
        main_run environ cfg w st = run_etl_pipeline cfg w (Some 25) st
        \<and> (\<forall>s st'. main_run environ cfg w st = Inr (Some s, st') \<longrightarrow> total s \<le> 25))"
proof -
  have a: "run_etl_pipeline cfg w None st = run_etl_pipeline cfg w (Some 50) st"
    by (simp add: run_etl_pipeline_def)
  have b: "total s \<le> 50" if "run_etl_pipeline cfg w None st = Inr (Some s, st')" for s st'
    using run_etl_pipeline_total[of cfg w 50 st s st'] that a by simp
  have p: "py_int ''25'' = Inr 25" by code_simp
  have c: "main_run environ cfg w st = run_etl_pipeline cfg w (Some 25) st"
    if "environ ''SAMPLE_LIMIT'' = None"
    using that p by (simp add: main_run_def main_sample_limit_def getenv_def)
  have d: "total s \<le> 25"
    if "environ ''SAMPLE_LIMIT'' = None" "main_run environ cfg w st = Inr (Some s, st')" for s st'
    using run_etl_pipeline_total[of cfg w 25 st s st'] c[OF that(1)] that(2) by simp
  from a b c d show ?thesis by blast
qed

text \<open>On the list of 26 identifiers, \<^verbatim>\<open>main\<close> with an empty environment loads 25.\<close>

theorem default_limit_is_fifty_in_pipeline_witness:
  "run_etl_pipeline test_config (serving alphabet_server) None start =
     run_etl_pipeline test_config (serving alphabet_server) (Some 50) start
   \<and> (Map.empty :: string \<rightharpoonup> string) ''SAMPLE_LIMIT'' = None
   \<and> main_run Map.empty test_config (serving alphabet_server) start =
       run_etl_pipeline test_config (serving alphabet_server) (Some 25) start
   \<and> main_run Map.empty test_config (serving alphabet_server) start =
       Inr (Some \<lparr>total = 25, successful_loads = 25, failed_loads = 0\<rparr>,
            \<lparr>calls = 26, sleeps = replicate 24 0.1, writes = 25\<rparr>)"
proof -
  have e: "(Map.empty :: string \<rightharpoonup> string) ''SAMPLE_LIMIT'' = None" by simp
  have r: "main_run Map.empty test_config (serving alphabet_server) start =
       Inr (Some \<lparr>total = 25, successful_loads = 25, failed_loads = 0\<rparr>,
            \<lparr>calls = 26, sleeps = replicate 24 0.1, writes = 25\<rparr>)"
    by code_simp
  from default_limit_is_fifty_in_pipeline[of test_config "serving alphabet_server" start Map.empty] e
  have a: "run_etl_pipeline test_config (serving alphabet_server) None start =
     run_etl_pipeline test_config (serving alphabet_server) (Some 50) start"
    and b: "main_run Map.empty test_config (serving alphabet_server) start =
       run_etl_pipeline test_config (serving alphabet_server) (Some 25) start"
    by blast+
  from a e b r show ?thesis by (intro conjI)
qed

end
